theory Spec2Isabelle
  imports Main
begin

section \<open>Values, token dictionaries and exceptions\<close>

text \<open>
  The module \<open>src/auth/spotify_auth.py\<close> keeps a token as a Python dictionary
  (\<open>token_info["expires_at"]\<close>, \<open>"refresh_token" not in token_to_refresh\<close>,
  \<open>token_info["access_token"]\<close>). A dictionary is an association list from keys to
  values; a value is an integer or a string. The empty dictionary and \<open>None\<close> are both
  falsy in Python, which the code relies on (\<open>if token_info:\<close>).
\<close>

datatype pyval = PInt int | PStr string

type_synonym pydict = "(string \<times> pyval) list"

text \<open>
  Exceptions are values. \<open>KeyError\<close> and \<open>TypeError\<close> come from dictionary access and
  from subtracting from a non-number, \<open>ValueError\<close> is raised by the constructor, and
  \<open>Raised\<close> stands for whatever a collaborator (OAuth client, Token Store, Cache Store)
  raises.
\<close>

datatype exn = KeyError string | TypeError | ValueError string | Raised string

definition truthy :: "pydict option \<Rightarrow> bool" where
  "truthy d = (case d of None \<Rightarrow> False | Some kv \<Rightarrow> kv \<noteq> [])"

definition py_or :: "pydict option \<Rightarrow> pydict option \<Rightarrow> pydict option" where
  "py_or a b = (if truthy a then a else b)"

definition has_key :: "pydict \<Rightarrow> string \<Rightarrow> bool" where
  "has_key d k = (map_of d k \<noteq> None)"

definition getitem :: "pydict \<Rightarrow> string \<Rightarrow> exn + pyval" where
  "getitem d k = (case map_of d k of None \<Rightarrow> Inl (KeyError k) | Some v \<Rightarrow> Inr v)"

definition str_truthy :: "string option \<Rightarrow> bool" where
  "str_truthy x = (case x of None \<Rightarrow> False | Some v \<Rightarrow> v \<noteq> [])"

definition str_or :: "string option \<Rightarrow> string option \<Rightarrow> string option" where
  "str_or a b = (if str_truthy a then a else b)"

fun join :: "string \<Rightarrow> string list \<Rightarrow> string" where
  "join sep [] = []"
| "join sep [x] = x"
| "join sep (x # y # ys) = x @ sep @ join sep (y # ys)"

section \<open>Collaborators\<close>

text \<open>
  What the outside world answers during one call of a public method: the clock
  (\<open>int(time.time())\<close>, read at most once per call), the process environment, the
  answers of the OAuth client, and the faults of the two stores.
\<close>

record env =
  time_now :: int
  getenv :: "string \<Rightarrow> string option"
  oauth_get_authorize_url :: "exn + string"
  oauth_get_access_token :: "string \<Rightarrow> exn + pydict"
  oauth_refresh_access_token :: "pyval \<Rightarrow> exn + pydict"
  load_token_fault :: "string option"
  save_token_fault :: "pydict \<Rightarrow> string option"
  delete_token_fault :: "string option"
  clear_all_cache_fault :: "string option"

text \<open>
  The persistent side: the record the Token Store holds, the arguments of every call of
  its save operation (oldest first), and the entries of the Cache Store.
\<close>

record stores =
  token_file :: "pydict option"
  save_calls :: "pydict list"
  cache_entries :: "string list"

text \<open>
  The classes \<open>TokenManager\<close> and \<open>CacheManager\<close> (\<open>token_manager.py\<close>,
  \<open>cache_manager.py\<close>) are not among the sources. The spec gives the Token Store
  \<open>load() -> TokenRecord | absent\<close>, \<open>save(TokenRecord) -> void\<close>, \<open>delete() -> void\<close> and the
  Cache Store \<open>clear_all() -> void\<close>, each able to fail with a \<open>StoreError\<close>: the fault
  fields of \<open>env\<close> carry its message, and the operation raises \<open>Raised\<close> with it. An
  operation that fails leaves the stored data as it was.
\<close>

text \<open>Modelled from the spec: \<open>TokenManager.load_token\<close> is missing; \<open>load()\<close> returns the
  persisted record, or absent when there is none.\<close>

definition load_token :: "env \<Rightarrow> stores \<Rightarrow> (exn + pydict option) \<times> stores" where
  "load_token ev w =
     (case load_token_fault ev of
        Some msg \<Rightarrow> (Inl (Raised msg), w)
      | None \<Rightarrow> (Inr (token_file w), w))"

text \<open>Modelled from the spec: \<open>TokenManager.save_token\<close> is missing; \<open>save(TokenRecord)\<close>
  persists the record. Every call is recorded in \<open>save_calls\<close>, also one that fails.\<close>

definition save_token :: "env \<Rightarrow> pydict \<Rightarrow> stores \<Rightarrow> (exn + unit) \<times> stores" where
  "save_token ev ti w =
     (case save_token_fault ev ti of
        Some msg \<Rightarrow> (Inl (Raised msg), w\<lparr>save_calls := save_calls w @ [ti]\<rparr>)
      | None \<Rightarrow> (Inr (), w\<lparr>save_calls := save_calls w @ [ti], token_file := Some ti\<rparr>))"

text \<open>Modelled from the spec: \<open>TokenManager.delete_token\<close> is missing; \<open>delete()\<close> removes
  the persisted record.\<close>

definition delete_token :: "env \<Rightarrow> stores \<Rightarrow> (exn + unit) \<times> stores" where
  "delete_token ev w =
     (case delete_token_fault ev of
        Some msg \<Rightarrow> (Inl (Raised msg), w)
      | None \<Rightarrow> (Inr (), w\<lparr>token_file := None\<rparr>))"

text \<open>Modelled from the spec: \<open>CacheManager.clear_all_cache\<close> is missing; \<open>clear_all()\<close>
  empties the cache.\<close>

definition clear_all_cache :: "env \<Rightarrow> stores \<Rightarrow> (exn + unit) \<times> stores" where
  "clear_all_cache ev w =
     (case clear_all_cache_fault ev of
        Some msg \<Rightarrow> (Inl (Raised msg), w)
      | None \<Rightarrow> (Inr (), w\<lparr>cache_entries := []\<rparr>))"

section \<open>The class SpotifyAuth\<close>

record SpotifyAuth =
  client_id :: "string option"
  client_secret :: "string option"
  redirect_uri :: "string option"
  authenticated :: bool
  token_info :: "pydict option"

text \<open>What \<open>except\<close> branches and the fail-fast branch do to the instance.\<close>

definition unauthenticate :: "SpotifyAuth \<Rightarrow> SpotifyAuth" where
  "unauthenticate s = s\<lparr>authenticated := False, token_info := None\<rparr>"

definition is_token_expired :: "int \<Rightarrow> pydict \<Rightarrow> exn + bool" where
  "is_token_expired now ti =
     (case getitem ti ''expires_at'' of
        Inl e \<Rightarrow> Inl e
      | Inr (PInt expires_at) \<Rightarrow> Inr (expires_at - now < 60)
      | Inr (PStr _) \<Rightarrow> Inl TypeError)"

definition get_auth_url :: "env \<Rightarrow> SpotifyAuth \<Rightarrow> stores \<Rightarrow> (exn + string) \<times> SpotifyAuth \<times> stores" where
  "get_auth_url ev s w = (oauth_get_authorize_url ev, s, w)"

definition handle_callback :: "env \<Rightarrow> string \<Rightarrow> SpotifyAuth \<Rightarrow> stores \<Rightarrow> bool \<times> SpotifyAuth \<times> stores" where
  "handle_callback ev code s w =
     (case oauth_get_access_token ev code of
        Inl e \<Rightarrow> (False, unauthenticate s, w)
      | Inr ti \<Rightarrow>
          (case save_token ev ti w of
             (Inl e, w') \<Rightarrow> (False, unauthenticate s, w')
           | (Inr _, w') \<Rightarrow> (True, s\<lparr>token_info := Some ti, authenticated := True\<rparr>, w')))"

definition refresh_token ::
  "env \<Rightarrow> pydict option \<Rightarrow> SpotifyAuth \<Rightarrow> stores \<Rightarrow> (exn + pydict option) \<times> SpotifyAuth \<times> stores" where
  "refresh_token ev ti s w =
     (case py_or ti (token_info s) of
        None \<Rightarrow> (Inr None, unauthenticate s, w)
      | Some token_to_refresh \<Rightarrow>
          if \<not> truthy (Some token_to_refresh) \<or> \<not> has_key token_to_refresh ''refresh_token''
          then (Inr None, unauthenticate s, w)
          else
            (case getitem token_to_refresh ''refresh_token'' of
               Inl e \<Rightarrow> (Inr None, unauthenticate s, w)
             | Inr rt \<Rightarrow>
                 (case oauth_refresh_access_token ev rt of
                    Inl e \<Rightarrow> (Inr None, unauthenticate s, w)
                  | Inr new_token \<Rightarrow>
                      (case save_token ev new_token w of
                         (Inl e, w') \<Rightarrow> (Inr None, unauthenticate s, w')
                       | (Inr _, w') \<Rightarrow>
                           (Inr (Some new_token),
                            s\<lparr>token_info := Some new_token, authenticated := True\<rparr>, w')))))"

definition access_token_of :: "pydict option \<Rightarrow> exn + pyval option" where
  "access_token_of ti =
     (case ti of
        None \<Rightarrow> Inl TypeError
      | Some d \<Rightarrow> (case getitem d ''access_token'' of Inl e \<Rightarrow> Inl e | Inr v \<Rightarrow> Inr (Some v)))"

definition get_token :: "env \<Rightarrow> SpotifyAuth \<Rightarrow> stores \<Rightarrow> (exn + pyval option) \<times> SpotifyAuth \<times> stores" where
  "get_token ev s w =
     (if \<not> authenticated s \<or> \<not> truthy (token_info s) then (Inr None, s, w)
      else
        (case token_info s of
           None \<Rightarrow> (Inr None, s, w)
         | Some held \<Rightarrow>
             (case is_token_expired (time_now ev) held of
                Inl e \<Rightarrow> (Inl e, s, w)
              | Inr False \<Rightarrow> (access_token_of (token_info s), s, w)
              | Inr True \<Rightarrow>
                  (case refresh_token ev None s w of
                     (Inl e, s', w') \<Rightarrow> (Inr None, s', w')
                   | (Inr r, s', w') \<Rightarrow>
                       if \<not> truthy r then (Inr None, s'\<lparr>token_info := r\<rparr>, w')
                       else (access_token_of r, s'\<lparr>token_info := r\<rparr>, w')))))"

definition is_authenticated :: "env \<Rightarrow> SpotifyAuth \<Rightarrow> stores \<Rightarrow> (exn + bool) \<times> SpotifyAuth \<times> stores" where
  "is_authenticated ev s w =
     (if authenticated s \<and> truthy (token_info s) then
        (case token_info s of
           None \<Rightarrow> (Inr False, s, w)
         | Some held \<Rightarrow>
             (case is_token_expired (time_now ev) held of
                Inl e \<Rightarrow> (Inl e, s, w)
              | Inr False \<Rightarrow> (Inr True, s, w)
              | Inr True \<Rightarrow>
                  (case refresh_token ev None s w of
                     (Inl e, s', w') \<Rightarrow> (Inr False, s'\<lparr>authenticated := False\<rparr>, w')
                   | (Inr r, s', w') \<Rightarrow> (Inr (r \<noteq> None), s'\<lparr>token_info := r\<rparr>, w'))))
      else (Inr False, s, w))"

definition disconnect :: "env \<Rightarrow> SpotifyAuth \<Rightarrow> stores \<Rightarrow> bool \<times> SpotifyAuth \<times> stores" where
  "disconnect ev s w =
     (case delete_token ev w of
        (Inl e, w1) \<Rightarrow> (False, s, w1)
      | (Inr _, w1) \<Rightarrow>
          (case clear_all_cache ev w1 of
             (Inl e, w2) \<Rightarrow> (False, s, w2)
           | (Inr _, w2) \<Rightarrow> (True, unauthenticate s, w2)))"

definition clear_cache :: "env \<Rightarrow> SpotifyAuth \<Rightarrow> stores \<Rightarrow> bool \<times> SpotifyAuth \<times> stores" where
  "clear_cache ev s w =
     (case clear_all_cache ev w of
        (Inl e, w1) \<Rightarrow> (False, s, w1)
      | (Inr _, w1) \<Rightarrow> (True, s, w1))"

definition load_saved_token :: "env \<Rightarrow> SpotifyAuth \<Rightarrow> stores \<Rightarrow> (exn + unit) \<times> SpotifyAuth \<times> stores" where
  "load_saved_token ev s w =
     (case load_token ev w of
        (Inl e, w1) \<Rightarrow> (Inl e, s, w1)
      | (Inr None, w1) \<Rightarrow> (Inr (), s, w1)
      | (Inr (Some loaded), w1) \<Rightarrow>
          if loaded = [] then (Inr (), s, w1)
          else
            (case is_token_expired (time_now ev) loaded of
               Inl e \<Rightarrow> (Inl e, s, w1)
             | Inr False \<Rightarrow> (Inr (), s\<lparr>token_info := Some loaded, authenticated := True\<rparr>, w1)
             | Inr True \<Rightarrow>
                 (case refresh_token ev (Some loaded) s w1 of
                    (Inl e, s', w') \<Rightarrow> (Inr (), s', w')
                  | (Inr r, s', w') \<Rightarrow>
                      if truthy r then (Inr (), s'\<lparr>token_info := r, authenticated := True\<rparr>, w')
                      else (Inr (), s', w'))))"

text \<open>
  The constructor. The message of the \<open>ValueError\<close> is a fixed Japanese prefix (its
  UTF-8 bytes below) followed by the names of the missing settings joined by a comma
  and a space. The constructors of the three collaborators are taken to succeed; the
  two directory paths only reach them.
\<close>

definition default_redirect_uri :: string where
  "default_redirect_uri = ''http://127.0.0.1:8000/callback''"

definition missing_prefix :: string where
  "missing_prefix = map char_of
     [232, 170, 141, 232, 168, 188, 230, 131, 133, 229, 160, 177, 227, 129, 140, 228,
      184, 141, 232, 182, 179, 227, 129, 151, 227, 129, 166, 227, 129, 132, 227, 129,
      190, 227, 129, 153, 58, 32 :: nat]"

definition getenv_default :: "env \<Rightarrow> string \<Rightarrow> string \<Rightarrow> string option" where
  "getenv_default ev k d = (case getenv ev k of None \<Rightarrow> Some d | Some v \<Rightarrow> Some v)"

definition missing_names :: "string option \<Rightarrow> string option \<Rightarrow> string option \<Rightarrow> string list" where
  "missing_names cid csec ruri =
     (if \<not> str_truthy cid then [''SPOTIFY_CLIENT_ID''] else []) @
     (if \<not> str_truthy csec then [''SPOTIFY_CLIENT_SECRET''] else []) @
     (if \<not> str_truthy ruri then [''SPOTIFY_REDIRECT_URI''] else [])"

definition init ::
  "env \<Rightarrow> string option \<Rightarrow> string option \<Rightarrow> string option \<Rightarrow> string option \<Rightarrow> string option
     \<Rightarrow> stores \<Rightarrow> (exn + SpotifyAuth) \<times> stores" where
  "init ev cid_arg csec_arg ruri_arg token_path cache_path w =
     (let cid = str_or cid_arg (getenv ev ''SPOTIFY_CLIENT_ID'');
          csec = str_or csec_arg (getenv ev ''SPOTIFY_CLIENT_SECRET'');
          ruri = str_or ruri_arg (getenv_default ev ''SPOTIFY_REDIRECT_URI'' default_redirect_uri)
      in if \<not> (str_truthy cid \<and> str_truthy csec \<and> str_truthy ruri)
         then (Inl (ValueError (missing_prefix @ join '', '' (missing_names cid csec ruri))), w)
         else
           (case load_saved_token ev
                   \<lparr>client_id = cid, client_secret = csec, redirect_uri = ruri,
                    authenticated = False, token_info = None\<rparr> w of
              (Inl e, s, w') \<Rightarrow> (Inl e, w')
            | (Inr _, s, w') \<Rightarrow> (Inr s, w')))"

section \<open>The invariant and example runs\<close>

text \<open>The in-memory flag says "authenticated" exactly when a token is held.\<close>

definition state_inv :: "SpotifyAuth \<Rightarrow> bool" where
  "state_inv s = (authenticated s \<longleftrightarrow> token_info s \<noteq> None)"

text \<open>
  Concrete collaborators for the example runs: a client that accepts the code
  \<open>code1\<close> and the refresh token \<open>r1\<close>, stores that work, and variants of it in which
  one collaborator fails.
\<close>

definition tok_old :: pydict where
  "tok_old = [(''access_token'', PStr ''old''), (''refresh_token'', PStr ''r1''),
              (''expires_at'', PInt 1000)]"

definition tok_new :: pydict where
  "tok_new = [(''access_token'', PStr ''new''), (''refresh_token'', PStr ''r2''),
              (''expires_at'', PInt 5000)]"

definition tok_norefresh :: pydict where
  "tok_norefresh = [(''access_token'', PStr ''old''), (''expires_at'', PInt 1000)]"

definition env_ok :: env where
  "env_ok =
     \<lparr>time_now = 2000,
      getenv = (\<lambda>k. None),
      oauth_get_authorize_url = Inr ''https://accounts.spotify.com/authorize'',
      oauth_get_access_token =
        (\<lambda>code. if code = ''code1'' then Inr tok_old else Inl (Raised ''invalid_grant'')),
      oauth_refresh_access_token =
        (\<lambda>rt. if rt = PStr ''r1'' then Inr tok_new else Inl (Raised ''invalid_grant'')),
      load_token_fault = None,
      save_token_fault = (\<lambda>ti. None),
      delete_token_fault = None,
      clear_all_cache_fault = None\<rparr>"

definition env_early :: env where
  "env_early = env_ok\<lparr>time_now := 500\<rparr>"

definition env_rejecting :: env where
  "env_rejecting =
     env_ok\<lparr>oauth_get_access_token := (\<lambda>code. Inl (Raised ''invalid_grant'')),
            oauth_refresh_access_token := (\<lambda>rt. Inl (Raised ''invalid_grant''))\<rparr>"

definition env_save_fails :: env where
  "env_save_fails = env_ok\<lparr>save_token_fault := (\<lambda>ti. Some ''disk full'')\<rparr>"

definition env_delete_fails :: env where
  "env_delete_fails = env_ok\<lparr>delete_token_fault := Some ''permission denied''\<rparr>"

definition auth_none :: SpotifyAuth where
  "auth_none =
     \<lparr>client_id = Some ''id'', client_secret = Some ''secret'',
      redirect_uri = Some default_redirect_uri, authenticated = False, token_info = None\<rparr>"

definition auth_old :: SpotifyAuth where
  "auth_old = auth_none\<lparr>authenticated := True, token_info := Some tok_old\<rparr>"

definition stores_empty :: stores where
  "stores_empty = \<lparr>token_file = None, save_calls = [], cache_entries = []\<rparr>"

definition stores_old :: stores where
  "stores_old = \<lparr>token_file = Some tok_old, save_calls = [tok_old], cache_entries = [''top_tracks'']\<rparr>"

section \<open>The staleness test\<close>

text \<open>
  C5. For a token record whose \<open>expires_at\<close> field is the integer \<open>e\<close>, and the current
  time \<open>now\<close> in whole seconds, the staleness test of the manager answers exactly
  \<open>e - now < 60\<close>.
\<close>

theorem is_token_expired_iff:
  assumes "map_of t ''expires_at'' = Some (PInt e)"
  shows "is_token_expired now t = Inr (e - now < 60)"
  using assms by (simp add: is_token_expired_def getitem_def)

theorem is_token_expired_iff_witness:
  "map_of [(''access_token'', PStr ''a''), (''expires_at'', PInt 1000)] ''expires_at'' = Some (PInt 1000)
   \<and> is_token_expired 950 [(''access_token'', PStr ''a''), (''expires_at'', PInt 1000)] = Inr True
   \<and> is_token_expired 940 [(''access_token'', PStr ''a''), (''expires_at'', PInt 1000)] = Inr False"
proof -
  have h: "map_of [(''access_token'', PStr ''a''), (''expires_at'', PInt 1000)] ''expires_at''
             = Some (PInt 1000)"
    by simp
  show ?thesis
    using h is_token_expired_iff [OF h, of 950] is_token_expired_iff [OF h, of 940] by simp
qed

section \<open>What a refresh can do\<close>

text \<open>
  \<open>refresh_token\<close> catches every exception of its body, so it always returns; and it
  leaves the instance either unauthenticated with no token, or authenticated with the
  new token.
\<close>

lemma refresh_token_returns:
  "\<exists>r. fst (refresh_token ev ti s w) = Inr r"
  by (auto simp: refresh_token_def split: option.splits sum.splits prod.splits)

lemma refresh_token_cases:
  assumes "refresh_token ev ti s w = (r, s', w')"
  shows "(r = Inr None \<and> s' = unauthenticate s)
         \<or> (\<exists>n. r = Inr (Some n) \<and> s' = s\<lparr>token_info := Some n, authenticated := True\<rparr>)"
  using assms
  by (auto simp: refresh_token_def split: option.splits sum.splits prod.splits if_splits)

lemma state_inv_unauthenticate: "state_inv (unauthenticate s)"
  by (simp add: state_inv_def unauthenticate_def)

lemma state_inv_refresh_token:
  "refresh_token ev ti s w = (r, s', w') \<Longrightarrow> state_inv s'"
  by (drule refresh_token_cases) (auto simp: state_inv_def unauthenticate_def)

lemma state_inv_handle_callback:
  "handle_callback ev code s w = (b, s', w') \<Longrightarrow> state_inv s'"
  by (auto simp: handle_callback_def state_inv_def unauthenticate_def split: sum.splits prod.splits)

lemma state_inv_get_token:
  "state_inv s \<Longrightarrow> get_token ev s w = (r, s', w') \<Longrightarrow> state_inv s'"
  apply (auto simp: get_token_def split: if_splits option.splits sum.splits prod.splits bool.splits)
  apply (drule refresh_token_cases, auto simp: state_inv_def unauthenticate_def)+
  done

lemma state_inv_is_authenticated:
  "state_inv s \<Longrightarrow> is_authenticated ev s w = (r, s', w') \<Longrightarrow> state_inv s'"
  apply (auto simp: is_authenticated_def split: if_splits option.splits sum.splits prod.splits bool.splits)
  apply (drule refresh_token_cases, auto simp: state_inv_def unauthenticate_def)+
  done

lemma state_inv_disconnect:
  "state_inv s \<Longrightarrow> disconnect ev s w = (r, s', w') \<Longrightarrow> state_inv s'"
  by (auto simp: disconnect_def state_inv_unauthenticate split: sum.splits prod.splits)

lemma state_inv_clear_cache:
  "state_inv s \<Longrightarrow> clear_cache ev s w = (r, s', w') \<Longrightarrow> state_inv s'"
  by (auto simp: clear_cache_def split: sum.splits prod.splits)

lemma state_inv_load_saved_token:
  "state_inv s \<Longrightarrow> load_saved_token ev s w = (r, s', w') \<Longrightarrow> state_inv s'"
  apply (auto simp: load_saved_token_def split: if_splits option.splits sum.splits prod.splits bool.splits)
  apply (auto simp: state_inv_def truthy_def split: option.splits)
  apply (drule refresh_token_cases, auto simp: state_inv_def unauthenticate_def)+
  done

lemma state_inv_init:
  "init ev a b c tp cp w = (Inr s, w') \<Longrightarrow> state_inv s"
  apply (auto simp: init_def Let_def split: if_splits sum.splits prod.splits)
  apply (erule state_inv_load_saved_token[rotated])
  apply (simp add: state_inv_def)
  done

section \<open>Refreshing\<close>

text \<open>
  C2. Whatever record is refreshed (the argument if it is a non-empty dictionary, else
  the held one), and whatever exception \<open>e\<close> the refresh exchange of the OAuth client
  raises for its refresh token, \<open>refresh_token\<close> does not raise: it returns \<open>None\<close>, and
  the instance is left unauthenticated with no held token. The stores are untouched.
\<close>

theorem refresh_token_exchange_raises:
  assumes "py_or ti (token_info s) = Some t"
      and "map_of t ''refresh_token'' = Some rt"
      and "oauth_refresh_access_token ev rt = Inl e"
  shows "refresh_token ev ti s w = (Inr None, s\<lparr>authenticated := False, token_info := None\<rparr>, w)"
proof -
  from assms(2) have "t \<noteq> []" by auto
  with assms show ?thesis
    by (simp add: refresh_token_def truthy_def has_key_def getitem_def unauthenticate_def)
qed

theorem refresh_token_exchange_raises_witness:
  "py_or None (token_info auth_old) = Some tok_old
   \<and> map_of tok_old ''refresh_token'' = Some (PStr ''r1'')
   \<and> oauth_refresh_access_token env_rejecting (PStr ''r1'') = Inl (Raised ''invalid_grant'')
   \<and> refresh_token env_rejecting None auth_old stores_old
       = (Inr None, auth_old\<lparr>authenticated := False, token_info := None\<rparr>, stores_old)"
proof -
  have h1: "py_or None (token_info auth_old) = Some tok_old"
    by (simp add: py_or_def truthy_def auth_old_def auth_none_def)
  have h2: "map_of tok_old ''refresh_token'' = Some (PStr ''r1'')"
    by (simp add: tok_old_def)
  have h3: "oauth_refresh_access_token env_rejecting (PStr ''r1'') = Inl (Raised ''invalid_grant'')"
    by (simp add: env_rejecting_def env_ok_def)
  show ?thesis
    using h1 h2 h3 refresh_token_exchange_raises [OF h1 h2 h3, of stores_old] by simp
qed

section \<open>The callback\<close>

text \<open>
  C3. For a code whose exchange raises, \<open>handle_callback\<close> returns \<open>False\<close> and clears
  the in-memory state; the stores are exactly as before (no call of the save operation,
  the persisted record unchanged); and \<open>is_authenticated\<close>, called afterwards under any
  collaborators, returns \<open>False\<close>.
\<close>

theorem handle_callback_rejected:
  assumes "oauth_get_access_token ev code = Inl e"
  shows "handle_callback ev code s w = (False, s\<lparr>authenticated := False, token_info := None\<rparr>, w)
         \<and> save_calls (snd (snd (handle_callback ev code s w))) = save_calls w
         \<and> token_file (snd (snd (handle_callback ev code s w))) = token_file w
         \<and> is_authenticated ev' (s\<lparr>authenticated := False, token_info := None\<rparr>) w
             = (Inr False, s\<lparr>authenticated := False, token_info := None\<rparr>, w)"
  using assms
  by (simp add: handle_callback_def unauthenticate_def is_authenticated_def)

theorem handle_callback_rejected_witness:
  "oauth_get_access_token env_ok ''bad'' = Inl (Raised ''invalid_grant'')
   \<and> handle_callback env_ok ''bad'' auth_old stores_old
        = (False, auth_old\<lparr>authenticated := False, token_info := None\<rparr>, stores_old)
   \<and> is_authenticated env_early (auth_old\<lparr>authenticated := False, token_info := None\<rparr>) stores_old
        = (Inr False, auth_old\<lparr>authenticated := False, token_info := None\<rparr>, stores_old)"
proof -
  have h: "oauth_get_access_token env_ok ''bad'' = Inl (Raised ''invalid_grant'')"
    by (simp add: env_ok_def)
  show ?thesis
    using h handle_callback_rejected [OF h, of auth_old stores_old env_early] by simp
qed

section \<open>Refreshing a record without a refresh token\<close>

text \<open>
  The record that \<open>refresh_token\<close> refreshes is \<open>token_info or self._token_info\<close>: an
  argument that is the empty dictionary is falsy, so the held record is taken instead.
  Here the argument \<open>{}\<close> has no \<open>refresh_token\<close> field, and yet the call refreshes the
  held record, returns the new one and saves it.
\<close>

theorem refresh_token_empty_argument_counterexample:
  "\<not> has_key [] ''refresh_token''
   \<and> refresh_token env_ok (Some []) auth_old stores_old
       = (Inr (Some tok_new), auth_old\<lparr>token_info := Some tok_new\<rparr>,
          stores_old\<lparr>save_calls := [tok_old, tok_new], token_file := Some tok_new\<rparr>)"
  by (simp add: refresh_token_def py_or_def truthy_def has_key_def getitem_def save_token_def
        env_ok_def auth_old_def auth_none_def stores_old_def tok_old_def tok_new_def)

text \<open>
  C7. Let the record to refresh be the argument when that is a non-empty
  dictionary, and the held record otherwise. If that record is absent, or has no
  \<open>refresh_token\<close> field, then \<open>refresh_token\<close> returns \<open>None\<close>, the instance is left
  unauthenticated with no held token, and the stores are exactly as before: the save
  operation of the Token Store is not called.
\<close>

theorem refresh_token_without_refresh_token:
  assumes "py_or ti (token_info s) = None
           \<or> (\<exists>t. py_or ti (token_info s) = Some t \<and> \<not> has_key t ''refresh_token'')"
  shows "refresh_token ev ti s w = (Inr None, s\<lparr>authenticated := False, token_info := None\<rparr>, w)"
  using assms
  by (auto simp: refresh_token_def unauthenticate_def)

theorem refresh_token_without_refresh_token_witness:
  "(py_or (Some tok_norefresh) (token_info auth_old) = None
      \<or> (\<exists>t. py_or (Some tok_norefresh) (token_info auth_old) = Some t \<and> \<not> has_key t ''refresh_token''))
   \<and> refresh_token env_ok (Some tok_norefresh) auth_old stores_old
       = (Inr None, auth_old\<lparr>authenticated := False, token_info := None\<rparr>, stores_old)"
proof -
  have h: "py_or (Some tok_norefresh) (token_info auth_old) = None
      \<or> (\<exists>t. py_or (Some tok_norefresh) (token_info auth_old) = Some t \<and> \<not> has_key t ''refresh_token'')"
    by (simp add: py_or_def truthy_def tok_norefresh_def has_key_def)
  show ?thesis
    using h refresh_token_without_refresh_token [OF h, of env_ok stores_old] by simp
qed

section \<open>Reading the access token\<close>

text \<open>
  The save of the refreshed record is inside the \<open>try\<close> of \<open>refresh_token\<close>. When the
  Token Store raises there, the held record is stale and its refresh token is accepted,
  and yet \<open>get_token\<close> returns \<open>None\<close> and the instance ends unauthenticated.
\<close>

theorem get_token_save_fails_counterexample:
  "authenticated auth_old
   \<and> token_info auth_old = Some tok_old
   \<and> is_token_expired (time_now env_save_fails) tok_old = Inr True
   \<and> getitem tok_old ''refresh_token'' = Inr (PStr ''r1'')
   \<and> oauth_refresh_access_token env_save_fails (PStr ''r1'') = Inr tok_new
   \<and> get_token env_save_fails auth_old stores_old
       = (Inr None, auth_old\<lparr>authenticated := False, token_info := None\<rparr>,
          stores_old\<lparr>save_calls := [tok_old, tok_new]\<rparr>)"
  by (simp add: get_token_def refresh_token_def is_token_expired_def py_or_def truthy_def
        has_key_def getitem_def save_token_def unauthenticate_def
        env_save_fails_def env_ok_def auth_old_def auth_none_def stores_old_def tok_old_def tok_new_def)

text \<open>
  C1. The instance is authenticated and holds a record that is stale
  (\<open>expires_at - now < 60\<close>) and carries a refresh token the OAuth client accepts, and
  the Token Store saves the refreshed record without raising. Then \<open>get_token\<close> returns
  the access token of the refreshed record, the instance holds the refreshed record,
  and the save operation has been called exactly once, with the refreshed record.
\<close>

theorem get_token_refreshes_stale:
  assumes "authenticated s"
      and "token_info s = Some t"
      and "map_of t ''expires_at'' = Some (PInt e)"
      and "e - time_now ev < 60"
      and "map_of t ''refresh_token'' = Some rt"
      and "oauth_refresh_access_token ev rt = Inr new"
      and "save_token_fault ev new = None"
      and "map_of new ''access_token'' = Some a"
  shows "get_token ev s w
           = (Inr (Some a), s\<lparr>token_info := Some new, authenticated := True\<rparr>,
              w\<lparr>save_calls := save_calls w @ [new], token_file := Some new\<rparr>)"
proof -
  have t: "t \<noteq> []" using assms(3) by auto
  have n: "new \<noteq> []" using assms(8) by auto
  have ex: "is_token_expired (time_now ev) t = Inr True"
    using assms(3,4) by (simp add: is_token_expired_def getitem_def)
  have rf: "refresh_token ev None s w
              = (Inr (Some new), s\<lparr>token_info := Some new, authenticated := True\<rparr>,
                 w\<lparr>save_calls := save_calls w @ [new], token_file := Some new\<rparr>)"
    using assms(2,5,6,7) t
    by (simp add: refresh_token_def py_or_def truthy_def has_key_def getitem_def save_token_def)
  show ?thesis
    using assms(1,2,8) t n ex rf
    by (simp add: get_token_def truthy_def access_token_of_def getitem_def)
qed

theorem get_token_refreshes_stale_witness:
  "authenticated auth_old
   \<and> token_info auth_old = Some tok_old
   \<and> map_of tok_old ''expires_at'' = Some (PInt 1000)
   \<and> 1000 - time_now env_ok < 60
   \<and> map_of tok_old ''refresh_token'' = Some (PStr ''r1'')
   \<and> oauth_refresh_access_token env_ok (PStr ''r1'') = Inr tok_new
   \<and> save_token_fault env_ok tok_new = None
   \<and> map_of tok_new ''access_token'' = Some (PStr ''new'')
   \<and> get_token env_ok auth_old stores_old
        = (Inr (Some (PStr ''new'')), auth_old\<lparr>token_info := Some tok_new, authenticated := True\<rparr>,
           stores_old\<lparr>save_calls := save_calls stores_old @ [tok_new], token_file := Some tok_new\<rparr>)"
proof -
  have h1: "authenticated auth_old" by (simp add: auth_old_def)
  have h2: "token_info auth_old = Some tok_old" by (simp add: auth_old_def)
  have h3: "map_of tok_old ''expires_at'' = Some (PInt 1000)" by (simp add: tok_old_def)
  have h4: "1000 - time_now env_ok < 60" by (simp add: env_ok_def)
  have h5: "map_of tok_old ''refresh_token'' = Some (PStr ''r1'')" by (simp add: tok_old_def)
  have h6: "oauth_refresh_access_token env_ok (PStr ''r1'') = Inr tok_new" by (simp add: env_ok_def)
  have h7: "save_token_fault env_ok tok_new = None" by (simp add: env_ok_def)
  have h8: "map_of tok_new ''access_token'' = Some (PStr ''new'')" by (simp add: tok_new_def)
  show ?thesis
    using h1 h2 h3 h4 h5 h6 h7 h8
      get_token_refreshes_stale [OF h1 h2 h3 h4 h5 h6 h7 h8, of stores_old]
    by simp
qed

section \<open>An accepted code\<close>

text \<open>
  Two runs with the accepted code \<open>code1\<close>. In the first the Token Store raises on
  save, and \<open>handle_callback\<close> returns \<open>False\<close>. In the second the callback succeeds, but
  \<open>is_authenticated\<close> is called when the record has become stale and the client rejects
  its refresh token: it returns \<open>False\<close>.
\<close>

theorem handle_callback_accepted_counterexample:
  "oauth_get_access_token env_save_fails ''code1'' = Inr tok_old
   \<and> handle_callback env_save_fails ''code1'' auth_none stores_empty
       = (False, auth_none, stores_empty\<lparr>save_calls := [tok_old]\<rparr>)
   \<and> oauth_get_access_token env_ok ''code1'' = Inr tok_old
   \<and> handle_callback env_ok ''code1'' auth_none stores_empty
       = (True, auth_old, stores_old\<lparr>cache_entries := []\<rparr>)
   \<and> is_authenticated env_rejecting auth_old (stores_old\<lparr>cache_entries := []\<rparr>)
       = (Inr False, auth_none, stores_old\<lparr>cache_entries := []\<rparr>)"
  by (simp add: handle_callback_def is_authenticated_def refresh_token_def is_token_expired_def
        py_or_def truthy_def has_key_def getitem_def save_token_def unauthenticate_def
        env_save_fails_def env_rejecting_def env_ok_def auth_old_def auth_none_def
        stores_old_def stores_empty_def tok_old_def)

text \<open>
  C4. For a code the OAuth client accepts, when the Token Store saves the
  returned record without raising, \<open>handle_callback\<close> returns \<open>True\<close>, the instance is
  authenticated and holds the returned record, and the one record saved is the returned
  record. A later \<open>is_authenticated\<close> returns \<open>True\<close> when at that time the record is
  not stale, or it is stale and the refresh performed inside the call succeeds.
\<close>

theorem handle_callback_accepted:
  assumes "oauth_get_access_token ev code = Inr ti"
      and "save_token_fault ev ti = None"
  shows "handle_callback ev code s w
           = (True, s\<lparr>token_info := Some ti, authenticated := True\<rparr>,
              w\<lparr>save_calls := save_calls w @ [ti], token_file := Some ti\<rparr>)
         \<and> (is_token_expired (time_now ev') ti = Inr False
              \<or> (is_token_expired (time_now ev') ti = Inr True
                  \<and> (\<exists>n. fst (refresh_token ev' None (s\<lparr>token_info := Some ti, authenticated := True\<rparr>)
                                  (w\<lparr>save_calls := save_calls w @ [ti], token_file := Some ti\<rparr>))
                            = Inr (Some n)))
             \<longrightarrow> fst (is_authenticated ev' (s\<lparr>token_info := Some ti, authenticated := True\<rparr>)
                         (w\<lparr>save_calls := save_calls w @ [ti], token_file := Some ti\<rparr>))
                   = Inr True)"
proof -
  have hc: "handle_callback ev code s w
           = (True, s\<lparr>token_info := Some ti, authenticated := True\<rparr>,
              w\<lparr>save_calls := save_calls w @ [ti], token_file := Some ti\<rparr>)"
    using assms by (simp add: handle_callback_def save_token_def)
  have ne: "ti \<noteq> []" if "is_token_expired now ti = Inr b" for now b
    using that by (auto simp: is_token_expired_def getitem_def)
  show ?thesis
    using hc ne
    by (auto simp: is_authenticated_def truthy_def split: prod.splits sum.splits)
qed

theorem handle_callback_accepted_witness:
  "oauth_get_access_token env_ok ''code1'' = Inr tok_old
   \<and> save_token_fault env_ok tok_old = None
   \<and> handle_callback env_ok ''code1'' auth_none stores_empty
        = (True, auth_none\<lparr>token_info := Some tok_old, authenticated := True\<rparr>,
           stores_empty\<lparr>save_calls := save_calls stores_empty @ [tok_old], token_file := Some tok_old\<rparr>)
   \<and> is_token_expired (time_now env_early) tok_old = Inr False
   \<and> fst (is_authenticated env_early (auth_none\<lparr>token_info := Some tok_old, authenticated := True\<rparr>)
            (stores_empty\<lparr>save_calls := save_calls stores_empty @ [tok_old], token_file := Some tok_old\<rparr>))
        = Inr True"
proof -
  have h1: "oauth_get_access_token env_ok ''code1'' = Inr tok_old" by (simp add: env_ok_def)
  have h2: "save_token_fault env_ok tok_old = None" by (simp add: env_ok_def)
  have h3: "is_token_expired (time_now env_early) tok_old = Inr False"
    by (simp add: is_token_expired_def getitem_def env_early_def env_ok_def tok_old_def)
  show ?thesis
    using h1 h2 h3 handle_callback_accepted [OF h1 h2, of auth_none stores_empty env_early]
    by simp
qed

section \<open>Disconnecting\<close>

text \<open>
  When the Token Store raises on delete, \<open>disconnect\<close> returns \<open>False\<close> and nothing
  else has happened: the Token Store still loads the old record and the Cache Store is
  not cleared.
\<close>

theorem disconnect_delete_fails_counterexample:
  "disconnect env_delete_fails auth_old stores_old = (False, auth_old, stores_old)
   \<and> load_token env_ok stores_old = (Inr (Some tok_old), stores_old)
   \<and> cache_entries stores_old = [''top_tracks'']"
  by (simp add: disconnect_def delete_token_def load_token_def env_delete_fails_def env_ok_def
        stores_old_def)

text \<open>
  C8. From any state of the instance and the stores: if neither the delete of
  the Token Store nor the clearing of the Cache Store raises, \<open>disconnect\<close> returns
  \<open>True\<close>, the in-memory state is reset, the Cache Store is empty and a load of the
  Token Store that does not fail returns \<open>None\<close>; if one of them raises, \<open>disconnect\<close>
  returns \<open>False\<close> instead of raising, and the in-memory state is as before.
\<close>

theorem disconnect_effect:
  "(delete_token_fault ev = None \<and> clear_all_cache_fault ev = None \<longrightarrow>
      disconnect ev s w
        = (True, s\<lparr>authenticated := False, token_info := None\<rparr>,
           w\<lparr>token_file := None, cache_entries := []\<rparr>)
      \<and> (load_token_fault ev' = None \<longrightarrow>
           load_token ev' (w\<lparr>token_file := None, cache_entries := []\<rparr>)
             = (Inr None, w\<lparr>token_file := None, cache_entries := []\<rparr>)))
   \<and> (delete_token_fault ev \<noteq> None \<or> clear_all_cache_fault ev \<noteq> None \<longrightarrow>
      fst (disconnect ev s w) = False \<and> fst (snd (disconnect ev s w)) = s)"
  by (auto simp: disconnect_def delete_token_def clear_all_cache_def load_token_def
        unauthenticate_def split: option.splits)

theorem disconnect_effect_witness:
  "delete_token_fault env_ok = None \<and> clear_all_cache_fault env_ok = None
   \<and> load_token_fault env_ok = None
   \<and> disconnect env_ok auth_old stores_old
        = (True, auth_old\<lparr>authenticated := False, token_info := None\<rparr>,
           stores_old\<lparr>token_file := None, cache_entries := []\<rparr>)
   \<and> load_token env_ok (stores_old\<lparr>token_file := None, cache_entries := []\<rparr>)
        = (Inr None, stores_old\<lparr>token_file := None, cache_entries := []\<rparr>)
   \<and> delete_token_fault env_delete_fails \<noteq> None
   \<and> fst (disconnect env_delete_fails auth_old stores_old) = False"
proof -
  have h1: "delete_token_fault env_ok = None \<and> clear_all_cache_fault env_ok = None"
    by (simp add: env_ok_def)
  have h2: "load_token_fault env_ok = None" by (simp add: env_ok_def)
  have h3: "delete_token_fault env_delete_fails \<noteq> None"
    by (simp add: env_delete_fails_def)
  show ?thesis
    using h1 h2 h3 disconnect_effect [of env_ok auth_old stores_old env_ok]
      disconnect_effect [of env_delete_fails auth_old stores_old env_ok]
    by simp
qed

section \<open>Construction\<close>






section \<open>The authentication state\<close>

text \<open>
  A record that passes the staleness test is not empty. With no argument and a non-empty
  held record, \<open>refresh_token\<close> is decided by the record's refresh token, the answer of the
  OAuth client and the save of the Token Store. On a stale held record, \<open>is_authenticated\<close>
  ends with the result, the instance and the stores of the refresh it performs.
\<close>

lemma is_token_expired_nonempty:
  "is_token_expired now t = Inr b \<Longrightarrow> t \<noteq> []"
  by (auto simp: is_token_expired_def getitem_def)

lemma refresh_token_held:
  assumes "token_info s = Some t" and "t \<noteq> []"
  shows "refresh_token ev None s w =
     (case map_of t ''refresh_token'' of
        None \<Rightarrow> (Inr None, s\<lparr>authenticated := False, token_info := None\<rparr>, w)
      | Some rt \<Rightarrow>
          (case oauth_refresh_access_token ev rt of
             Inl e \<Rightarrow> (Inr None, s\<lparr>authenticated := False, token_info := None\<rparr>, w)
           | Inr new \<Rightarrow>
               (case save_token_fault ev new of
                  Some msg \<Rightarrow> (Inr None, s\<lparr>authenticated := False, token_info := None\<rparr>,
                               w\<lparr>save_calls := save_calls w @ [new]\<rparr>)
                | None \<Rightarrow> (Inr (Some new), s\<lparr>token_info := Some new, authenticated := True\<rparr>,
                           w\<lparr>save_calls := save_calls w @ [new], token_file := Some new\<rparr>))))"
  using assms
  by (simp add: refresh_token_def py_or_def truthy_def has_key_def getitem_def save_token_def
        unauthenticate_def split: option.splits sum.splits)

lemma is_authenticated_stale:
  assumes "authenticated s" and "token_info s = Some t"
      and "is_token_expired (time_now ev) t = Inr True"
      and "refresh_token ev None s w = (Inr r, s', w')"
  shows "is_authenticated ev s w = (Inr (r \<noteq> None), s', w')"
proof -
  have t: "t \<noteq> []" using assms(3) by (rule is_token_expired_nonempty)
  have "token_info s' = r"
    using refresh_token_cases [OF assms(4)] by (auto simp: unauthenticate_def)
  then have "s'\<lparr>token_info := r\<rparr> = s'" by auto
  then show ?thesis
    using assms t by (simp add: is_authenticated_def truthy_def)
qed

text \<open>
  C9. In a state that satisfies the invariant, \<open>is_authenticated\<close> returns \<open>True\<close>
  exactly when a record is held and either the staleness test says it is not stale, or
  it says stale and the refresh made inside the call returns a record. The call is not
  read-only, and what it does is fixed on every path. With no record, an empty record or
  a record that is not stale, nothing changes. On a stale record the call performs the
  refresh and ends in the state and stores the refresh leaves: when the client accepts
  the refresh token and the save does not raise, it returns \<open>True\<close>, the held record is
  the new one and the new record has been saved; when the record has no refresh token,
  the client rejects it or the save raises, it returns \<open>False\<close>, the flag is cleared and
  no record is held. Two runs from the same authenticated state show both mutations: in
  one the held record is replaced, in the other the flag and the record are cleared.
\<close>

theorem is_authenticated_iff:
  assumes "state_inv s"
  shows
    "(fst (is_authenticated ev s w) = Inr True \<longleftrightarrow>
        (\<exists>t. token_info s = Some t
           \<and> (is_token_expired (time_now ev) t = Inr False
                \<or> (is_token_expired (time_now ev) t = Inr True
                    \<and> (\<exists>n. fst (refresh_token ev None s w) = Inr (Some n))))))
     \<and> (token_info s = None \<or> token_info s = Some []
          \<longrightarrow> is_authenticated ev s w = (Inr False, s, w))
     \<and> (token_info s = Some t \<and> t \<noteq> [] \<and> is_token_expired (time_now ev) t = Inl e
          \<longrightarrow> is_authenticated ev s w = (Inl e, s, w))
     \<and> (token_info s = Some t \<and> is_token_expired (time_now ev) t = Inr False
          \<longrightarrow> is_authenticated ev s w = (Inr True, s, w))
     \<and> (token_info s = Some t \<and> is_token_expired (time_now ev) t = Inr True
          \<and> refresh_token ev None s w = (Inr r, s', w')
          \<longrightarrow> is_authenticated ev s w = (Inr (r \<noteq> None), s', w'))
     \<and> (token_info s = Some t \<and> is_token_expired (time_now ev) t = Inr True
          \<and> map_of t ''refresh_token'' = Some rt
          \<and> oauth_refresh_access_token ev rt = Inr new
          \<and> save_token_fault ev new = None
          \<longrightarrow> is_authenticated ev s w
                = (Inr True, s\<lparr>token_info := Some new, authenticated := True\<rparr>,
                   w\<lparr>save_calls := save_calls w @ [new], token_file := Some new\<rparr>))
     \<and> (token_info s = Some t \<and> is_token_expired (time_now ev) t = Inr True
          \<and> map_of t ''refresh_token'' = None
          \<longrightarrow> is_authenticated ev s w
                = (Inr False, s\<lparr>authenticated := False, token_info := None\<rparr>, w))
     \<and> (token_info s = Some t \<and> is_token_expired (time_now ev) t = Inr True
          \<and> map_of t ''refresh_token'' = Some rt
          \<and> oauth_refresh_access_token ev rt = Inl x
          \<longrightarrow> is_authenticated ev s w
                = (Inr False, s\<lparr>authenticated := False, token_info := None\<rparr>, w))
     \<and> (token_info s = Some t \<and> is_token_expired (time_now ev) t = Inr True
          \<and> map_of t ''refresh_token'' = Some rt
          \<and> oauth_refresh_access_token ev rt = Inr new
          \<and> save_token_fault ev new = Some msg
          \<longrightarrow> is_authenticated ev s w
                = (Inr False, s\<lparr>authenticated := False, token_info := None\<rparr>,
                   w\<lparr>save_calls := save_calls w @ [new]\<rparr>))
     \<and> is_authenticated env_ok auth_old stores_old
          = (Inr True, auth_old\<lparr>token_info := Some tok_new\<rparr>,
             stores_old\<lparr>save_calls := [tok_old, tok_new], token_file := Some tok_new\<rparr>)
     \<and> is_authenticated env_rejecting auth_old stores_old
          = (Inr False, auth_old\<lparr>authenticated := False, token_info := None\<rparr>, stores_old)"
proof -
  have au: "authenticated s" if "token_info s = Some t" for t
    using assms that by (simp add: state_inv_def)
  have A: "fst (is_authenticated ev s w) = Inr True \<longleftrightarrow>
            (\<exists>t. token_info s = Some t
               \<and> (is_token_expired (time_now ev) t = Inr False
                    \<or> (is_token_expired (time_now ev) t = Inr True
                        \<and> (\<exists>n. fst (refresh_token ev None s w) = Inr (Some n)))))"
  proof (cases "token_info s")
    case None
    then show ?thesis by (simp add: is_authenticated_def truthy_def)
  next
    case (Some u)
    show ?thesis
    proof (cases "u = []")
      case True
      with Some show ?thesis
        by (simp add: is_authenticated_def truthy_def is_token_expired_def getitem_def)
    next
      case False
      with Some au [OF Some] show ?thesis
        by (auto simp: is_authenticated_def truthy_def split: sum.splits prod.splits bool.splits)
    qed
  qed
  have B: "token_info s = None \<or> token_info s = Some []
            \<longrightarrow> is_authenticated ev s w = (Inr False, s, w)"
    by (auto simp: is_authenticated_def truthy_def)
  have C: "token_info s = Some t \<and> t \<noteq> [] \<and> is_token_expired (time_now ev) t = Inl e
            \<longrightarrow> is_authenticated ev s w = (Inl e, s, w)"
    using au by (auto simp: is_authenticated_def truthy_def)
  have D: "token_info s = Some t \<and> is_token_expired (time_now ev) t = Inr False
            \<longrightarrow> is_authenticated ev s w = (Inr True, s, w)"
    using au is_token_expired_nonempty [of "time_now ev" t False]
    by (auto simp: is_authenticated_def truthy_def)
  have E: "token_info s = Some t \<and> is_token_expired (time_now ev) t = Inr True
            \<and> refresh_token ev None s w = (Inr r, s', w')
            \<longrightarrow> is_authenticated ev s w = (Inr (r \<noteq> None), s', w')"
    using au is_authenticated_stale [of s t ev w r s' w'] by blast
  have st: "is_authenticated ev s w
              = (Inr (r0 \<noteq> None), s0, w0)"
    if "token_info s = Some t" "is_token_expired (time_now ev) t = Inr True"
       "refresh_token ev None s w = (Inr r0, s0, w0)" for r0 s0 w0
    using that au is_authenticated_stale [of s t ev w r0 s0 w0] by blast
  have rf: "refresh_token ev None s w =
     (case map_of t ''refresh_token'' of
        None \<Rightarrow> (Inr None, s\<lparr>authenticated := False, token_info := None\<rparr>, w)
      | Some rt \<Rightarrow>
          (case oauth_refresh_access_token ev rt of
             Inl e \<Rightarrow> (Inr None, s\<lparr>authenticated := False, token_info := None\<rparr>, w)
           | Inr new \<Rightarrow>
               (case save_token_fault ev new of
                  Some msg \<Rightarrow> (Inr None, s\<lparr>authenticated := False, token_info := None\<rparr>,
                               w\<lparr>save_calls := save_calls w @ [new]\<rparr>)
                | None \<Rightarrow> (Inr (Some new), s\<lparr>token_info := Some new, authenticated := True\<rparr>,
                           w\<lparr>save_calls := save_calls w @ [new], token_file := Some new\<rparr>))))"
    if "token_info s = Some t" "is_token_expired (time_now ev) t = Inr True"
    using that refresh_token_held [of s t ev w] is_token_expired_nonempty [of "time_now ev" t True]
    by blast
  have F: "token_info s = Some t \<and> is_token_expired (time_now ev) t = Inr True
          \<and> map_of t ''refresh_token'' = Some rt
          \<and> oauth_refresh_access_token ev rt = Inr new
          \<and> save_token_fault ev new = None
          \<longrightarrow> is_authenticated ev s w
                = (Inr True, s\<lparr>token_info := Some new, authenticated := True\<rparr>,
                   w\<lparr>save_calls := save_calls w @ [new], token_file := Some new\<rparr>)"
  proof
    assume h: "token_info s = Some t \<and> is_token_expired (time_now ev) t = Inr True
          \<and> map_of t ''refresh_token'' = Some rt
          \<and> oauth_refresh_access_token ev rt = Inr new
          \<and> save_token_fault ev new = None"
    then have "refresh_token ev None s w
                 = (Inr (Some new), s\<lparr>token_info := Some new, authenticated := True\<rparr>,
                    w\<lparr>save_calls := save_calls w @ [new], token_file := Some new\<rparr>)"
      using rf by simp
    with h show "is_authenticated ev s w
                = (Inr True, s\<lparr>token_info := Some new, authenticated := True\<rparr>,
                   w\<lparr>save_calls := save_calls w @ [new], token_file := Some new\<rparr>)"
      using st by fastforce
  qed
  have G: "token_info s = Some t \<and> is_token_expired (time_now ev) t = Inr True
          \<and> map_of t ''refresh_token'' = None
          \<longrightarrow> is_authenticated ev s w
                = (Inr False, s\<lparr>authenticated := False, token_info := None\<rparr>, w)"
  proof
    assume h: "token_info s = Some t \<and> is_token_expired (time_now ev) t = Inr True
          \<and> map_of t ''refresh_token'' = None"
    then have "refresh_token ev None s w
                 = (Inr None, s\<lparr>authenticated := False, token_info := None\<rparr>, w)"
      using rf by simp
    with h show "is_authenticated ev s w
                = (Inr False, s\<lparr>authenticated := False, token_info := None\<rparr>, w)"
      using st by fastforce
  qed
  have H: "token_info s = Some t \<and> is_token_expired (time_now ev) t = Inr True
          \<and> map_of t ''refresh_token'' = Some rt
          \<and> oauth_refresh_access_token ev rt = Inl x
          \<longrightarrow> is_authenticated ev s w
                = (Inr False, s\<lparr>authenticated := False, token_info := None\<rparr>, w)"
  proof
    assume h: "token_info s = Some t \<and> is_token_expired (time_now ev) t = Inr True
          \<and> map_of t ''refresh_token'' = Some rt
          \<and> oauth_refresh_access_token ev rt = Inl x"
    then have "refresh_token ev None s w
                 = (Inr None, s\<lparr>authenticated := False, token_info := None\<rparr>, w)"
      using rf by simp
    with h show "is_authenticated ev s w
                = (Inr False, s\<lparr>authenticated := False, token_info := None\<rparr>, w)"
      using st by fastforce
  qed
  have I: "token_info s = Some t \<and> is_token_expired (time_now ev) t = Inr True
          \<and> map_of t ''refresh_token'' = Some rt
          \<and> oauth_refresh_access_token ev rt = Inr new
          \<and> save_token_fault ev new = Some msg
          \<longrightarrow> is_authenticated ev s w
                = (Inr False, s\<lparr>authenticated := False, token_info := None\<rparr>,
                   w\<lparr>save_calls := save_calls w @ [new]\<rparr>)"
  proof
    assume h: "token_info s = Some t \<and> is_token_expired (time_now ev) t = Inr True
          \<and> map_of t ''refresh_token'' = Some rt
          \<and> oauth_refresh_access_token ev rt = Inr new
          \<and> save_token_fault ev new = Some msg"
    then have "refresh_token ev None s w
                 = (Inr None, s\<lparr>authenticated := False, token_info := None\<rparr>,
                    w\<lparr>save_calls := save_calls w @ [new]\<rparr>)"
      using rf by simp
    with h show "is_authenticated ev s w
                = (Inr False, s\<lparr>authenticated := False, token_info := None\<rparr>,
                   w\<lparr>save_calls := save_calls w @ [new]\<rparr>)"
      using st by fastforce
  qed
  have J: "is_authenticated env_ok auth_old stores_old
          = (Inr True, auth_old\<lparr>token_info := Some tok_new\<rparr>,
             stores_old\<lparr>save_calls := [tok_old, tok_new], token_file := Some tok_new\<rparr>)"
    by (simp add: is_authenticated_def refresh_token_def is_token_expired_def
        py_or_def truthy_def has_key_def getitem_def save_token_def
        env_ok_def auth_old_def auth_none_def stores_old_def tok_old_def tok_new_def)
  have K: "is_authenticated env_rejecting auth_old stores_old
          = (Inr False, auth_old\<lparr>authenticated := False, token_info := None\<rparr>, stores_old)"
    by (simp add: is_authenticated_def refresh_token_def is_token_expired_def
        py_or_def truthy_def has_key_def getitem_def unauthenticate_def
        env_rejecting_def env_ok_def auth_old_def auth_none_def tok_old_def)
  show ?thesis
    using A B C D E F G H I J K by blast
qed

theorem is_authenticated_iff_witness:
  "state_inv auth_old
   \<and> token_info auth_old = Some tok_old
   \<and> is_token_expired (time_now env_ok) tok_old = Inr True
   \<and> map_of tok_old ''refresh_token'' = Some (PStr ''r1'')
   \<and> oauth_refresh_access_token env_ok (PStr ''r1'') = Inr tok_new
   \<and> save_token_fault env_ok tok_new = None
   \<and> is_authenticated env_ok auth_old stores_old
        = (Inr True, auth_old\<lparr>token_info := Some tok_new, authenticated := True\<rparr>,
           stores_old\<lparr>save_calls := save_calls stores_old @ [tok_new], token_file := Some tok_new\<rparr>)
   \<and> (\<exists>n. fst (refresh_token env_ok None auth_old stores_old) = Inr (Some n))
   \<and> is_token_expired (time_now env_early) tok_old = Inr False
   \<and> is_authenticated env_early auth_old stores_old = (Inr True, auth_old, stores_old)
   \<and> oauth_refresh_access_token env_rejecting (PStr ''r1'') = Inl (Raised ''invalid_grant'')
   \<and> is_authenticated env_rejecting auth_old stores_old
        = (Inr False, auth_old\<lparr>authenticated := False, token_info := None\<rparr>, stores_old)
   \<and> save_token_fault env_save_fails tok_new = Some ''disk full''
   \<and> is_authenticated env_save_fails auth_old stores_old
        = (Inr False, auth_old\<lparr>authenticated := False, token_info := None\<rparr>,
           stores_old\<lparr>save_calls := save_calls stores_old @ [tok_new]\<rparr>)"
proof -
  have h: "state_inv auth_old" by (simp add: state_inv_def auth_old_def auth_none_def)
  have t: "token_info auth_old = Some tok_old" by (simp add: auth_old_def)
  have k: "map_of tok_old ''refresh_token'' = Some (PStr ''r1'')" by (simp add: tok_old_def)
  have x1: "is_token_expired (time_now env_ok) tok_old = Inr True"
    by (simp add: is_token_expired_def getitem_def env_ok_def tok_old_def)
  have x2: "is_token_expired (time_now env_early) tok_old = Inr False"
    by (simp add: is_token_expired_def getitem_def env_early_def env_ok_def tok_old_def)
  have x3: "is_token_expired (time_now env_rejecting) tok_old = Inr True"
    by (simp add: is_token_expired_def getitem_def env_rejecting_def env_ok_def tok_old_def)
  have x4: "is_token_expired (time_now env_save_fails) tok_old = Inr True"
    by (simp add: is_token_expired_def getitem_def env_save_fails_def env_ok_def tok_old_def)
  have o1: "oauth_refresh_access_token env_ok (PStr ''r1'') = Inr tok_new"
    by (simp add: env_ok_def)
  have o3: "oauth_refresh_access_token env_rejecting (PStr ''r1'') = Inl (Raised ''invalid_grant'')"
    by (simp add: env_rejecting_def env_ok_def)
  have o4: "oauth_refresh_access_token env_save_fails (PStr ''r1'') = Inr tok_new"
    by (simp add: env_save_fails_def env_ok_def)
  have f1: "save_token_fault env_ok tok_new = None" by (simp add: env_ok_def)
  have f4: "save_token_fault env_save_fails tok_new = Some ''disk full''"
    by (simp add: env_save_fails_def)
  note a = is_authenticated_iff [OF h, where ev = env_ok and w = stores_old and t = tok_old
             and rt = "PStr ''r1''" and new = tok_new]
  note b = is_authenticated_iff [OF h, where ev = env_early and w = stores_old and t = tok_old]
  note c = is_authenticated_iff [OF h, where ev = env_rejecting and w = stores_old and t = tok_old
             and rt = "PStr ''r1''" and x = "Raised ''invalid_grant''"]
  note d = is_authenticated_iff [OF h, where ev = env_save_fails and w = stores_old and t = tok_old
             and rt = "PStr ''r1''" and new = tok_new and msg = "''disk full''"]
  have r1: "is_authenticated env_ok auth_old stores_old
        = (Inr True, auth_old\<lparr>token_info := Some tok_new, authenticated := True\<rparr>,
           stores_old\<lparr>save_calls := save_calls stores_old @ [tok_new], token_file := Some tok_new\<rparr>)"
    using a t k x1 o1 f1 by blast
  have r1': "\<exists>n. fst (refresh_token env_ok None auth_old stores_old) = Inr (Some n)"
    using a t x1 r1 by auto
  have r2: "is_authenticated env_early auth_old stores_old = (Inr True, auth_old, stores_old)"
    using b t x2 by blast
  have r3: "is_authenticated env_rejecting auth_old stores_old
        = (Inr False, auth_old\<lparr>authenticated := False, token_info := None\<rparr>, stores_old)"
    using c t k x3 o3 by blast
  have r4: "is_authenticated env_save_fails auth_old stores_old
        = (Inr False, auth_old\<lparr>authenticated := False, token_info := None\<rparr>,
           stores_old\<lparr>save_calls := save_calls stores_old @ [tok_new]\<rparr>)"
    using d t k x4 o4 f4 by blast
  show ?thesis
    using h t k x1 x2 o1 o3 f1 f4 r1 r1' r2 r3 r4 by blast
qed

text \<open>
  C10. Every instance that the constructor returns satisfies the invariant (the flag is
  set exactly when a record is held), and each public method, started in a state that
  satisfies it, ends in a state that satisfies it, whatever the collaborators answer and
  whether the method returns or raises.
\<close>

theorem state_inv_kept:
  assumes "state_inv s"
  shows "(\<forall>s0 w0. init ev cid_arg csec_arg ruri_arg token_path cache_path w = (Inr s0, w0)
            \<longrightarrow> state_inv s0)
         \<and> state_inv (fst (snd (get_auth_url ev s w)))
         \<and> state_inv (fst (snd (handle_callback ev code s w)))
         \<and> state_inv (fst (snd (refresh_token ev ti s w)))
         \<and> state_inv (fst (snd (get_token ev s w)))
         \<and> state_inv (fst (snd (is_authenticated ev s w)))
         \<and> state_inv (fst (snd (disconnect ev s w)))
         \<and> state_inv (fst (snd (clear_cache ev s w)))"
proof (intro conjI allI impI)
  fix s0 w0
  assume "init ev cid_arg csec_arg ruri_arg token_path cache_path w = (Inr s0, w0)"
  then show "state_inv s0" by (rule state_inv_init)
next
  show "state_inv (fst (snd (get_auth_url ev s w)))"
    using assms by (simp add: get_auth_url_def)
next
  show "state_inv (fst (snd (handle_callback ev code s w)))"
    by (cases "handle_callback ev code s w") (auto dest: state_inv_handle_callback)
next
  show "state_inv (fst (snd (refresh_token ev ti s w)))"
    by (cases "refresh_token ev ti s w") (auto dest: state_inv_refresh_token)
next
  show "state_inv (fst (snd (get_token ev s w)))"
    using assms by (cases "get_token ev s w") (auto dest: state_inv_get_token)
next
  show "state_inv (fst (snd (is_authenticated ev s w)))"
    using assms by (cases "is_authenticated ev s w") (auto dest: state_inv_is_authenticated)
next
  show "state_inv (fst (snd (disconnect ev s w)))"
    using assms by (cases "disconnect ev s w") (auto dest: state_inv_disconnect)
next
  show "state_inv (fst (snd (clear_cache ev s w)))"
    using assms by (cases "clear_cache ev s w") (auto dest: state_inv_clear_cache)
qed

theorem state_inv_kept_witness:
  "state_inv auth_old
   \<and> init env_ok (Some ''id'') (Some ''secret'') None None None stores_old
       = (Inr (auth_none\<lparr>token_info := Some tok_new, authenticated := True\<rparr>),
          stores_old\<lparr>save_calls := [tok_old, tok_new], token_file := Some tok_new\<rparr>)
   \<and> state_inv (auth_none\<lparr>token_info := Some tok_new, authenticated := True\<rparr>)
   \<and> state_inv (fst (snd (get_token env_rejecting auth_old stores_old)))
   \<and> state_inv (fst (snd (is_authenticated env_rejecting auth_old stores_old)))
   \<and> state_inv (fst (snd (disconnect env_delete_fails auth_old stores_old)))"
proof -
  have h: "state_inv auth_old" by (simp add: state_inv_def auth_old_def auth_none_def)
  have i: "init env_ok (Some ''id'') (Some ''secret'') None None None stores_old
       = (Inr (auth_none\<lparr>token_info := Some tok_new, authenticated := True\<rparr>),
          stores_old\<lparr>save_calls := [tok_old, tok_new], token_file := Some tok_new\<rparr>)"
    by (simp add: init_def load_saved_token_def load_token_def refresh_token_def
        is_token_expired_def str_or_def str_truthy_def getenv_default_def default_redirect_uri_def
        py_or_def truthy_def has_key_def getitem_def save_token_def
        env_ok_def auth_none_def stores_old_def tok_old_def tok_new_def)
  show ?thesis
    using h i
      state_inv_kept [OF h, of env_ok "Some ''id''" "Some ''secret''" None None None stores_old]
      state_inv_kept [OF h, of env_rejecting _ _ _ _ _ stores_old]
      state_inv_kept [OF h, of env_delete_fails _ _ _ _ _ stores_old]
    by simp
qed

end
